theory Spec2Isabelle
  imports Main
begin

section \<open>JavaScript strings\<close>

text \<open>
  A string is a list of 8-bit code units, read as the code points U+0000 to U+00FF; the
  strings of the program with a code unit beyond that range are outside this type.
  On this range \<open>String.prototype.trim\<close> removes the six ASCII white-space characters
  and the no-break space U+00A0, and \<open>String.prototype.toLowerCase\<close> maps \<open>A\<close> to \<open>Z\<close>
  and the letters U+00C0 to U+00DE, the multiplication sign U+00D7 apart, to the code
  point 32 above; both stay inside the range.
\<close>

definition is_space :: "char \<Rightarrow> bool" where
  "is_space c \<longleftrightarrow> c = CHR '' '' \<or> c = CHR 0x09 \<or> c = CHR 0x0A \<or> c = CHR 0x0B
     \<or> c = CHR 0x0C \<or> c = CHR 0x0D \<or> c = CHR 0xA0"

definition trim :: "string \<Rightarrow> string" where
  "trim s = rev (dropWhile is_space (rev (dropWhile is_space s)))"

definition upper_chars :: string where
  "upper_chars = ''ABCDEFGHIJKLMNOPQRSTUVWXYZ''"

definition lower_chars :: string where
  "lower_chars = ''abcdefghijklmnopqrstuvwxyz''"

definition digit_chars :: string where
  "digit_chars = ''0123456789''"

definition latin_upper_chars :: string where
  "latin_upper_chars =
     [CHR 0xC0, CHR 0xC1, CHR 0xC2, CHR 0xC3, CHR 0xC4, CHR 0xC5, CHR 0xC6, CHR 0xC7,
      CHR 0xC8, CHR 0xC9, CHR 0xCA, CHR 0xCB, CHR 0xCC, CHR 0xCD, CHR 0xCE, CHR 0xCF,
      CHR 0xD0, CHR 0xD1, CHR 0xD2, CHR 0xD3, CHR 0xD4, CHR 0xD5, CHR 0xD6, CHR 0xD8,
      CHR 0xD9, CHR 0xDA, CHR 0xDB, CHR 0xDC, CHR 0xDD, CHR 0xDE]"

definition latin_lower_chars :: string where
  "latin_lower_chars =
     [CHR 0xE0, CHR 0xE1, CHR 0xE2, CHR 0xE3, CHR 0xE4, CHR 0xE5, CHR 0xE6, CHR 0xE7,
      CHR 0xE8, CHR 0xE9, CHR 0xEA, CHR 0xEB, CHR 0xEC, CHR 0xED, CHR 0xEE, CHR 0xEF,
      CHR 0xF0, CHR 0xF1, CHR 0xF2, CHR 0xF3, CHR 0xF4, CHR 0xF5, CHR 0xF6, CHR 0xF8,
      CHR 0xF9, CHR 0xFA, CHR 0xFB, CHR 0xFC, CHR 0xFD, CHR 0xFE]"

definition lower_char :: "char \<Rightarrow> char" where
  "lower_char c =
     (case map_of (zip (upper_chars @ latin_upper_chars) (lower_chars @ latin_lower_chars)) c of
        Some d \<Rightarrow> d
      | None \<Rightarrow> c)"

definition toLowerCase :: "string \<Rightarrow> string" where
  "toLowerCase s = map lower_char s"

text \<open>
  The regular-expression classes \<open>\d\<close>, \<open>\w\<close> and \<open>[a-z]\<close> under the flag \<open>i\<close>; they
  hold ASCII characters only.
\<close>

definition is_digit :: "char \<Rightarrow> bool" where
  "is_digit c \<longleftrightarrow> c \<in> set digit_chars"

definition is_alpha :: "char \<Rightarrow> bool" where
  "is_alpha c \<longleftrightarrow> c \<in> set upper_chars \<or> c \<in> set lower_chars"

definition is_word :: "char \<Rightarrow> bool" where
  "is_word c \<longleftrightarrow> is_alpha c \<or> is_digit c \<or> c = CHR ''_''"

text \<open>
  \<open>s.split(sep)\<close> for a one-character separator: all the pieces, at least one.
  \<open>s.split(sep, n)\<close> keeps the first \<open>n\<close> of these pieces and discards the others.
\<close>

fun split_on :: "char \<Rightarrow> string \<Rightarrow> string list" where
  "split_on sep [] = [[]]"
| "split_on sep (c # cs) =
     (if c = sep then [] # split_on sep cs
      else (case split_on sep cs of
              [] \<Rightarrow> [[c]]
            | p # ps \<Rightarrow> (c # p) # ps))"

definition split_limit :: "char \<Rightarrow> nat \<Rightarrow> string \<Rightarrow> string list" where
  "split_limit sep n s = take n (split_on sep s)"

text \<open>Decimal numerals: \<open>parseInt\<close> on a run of digits, and \<open>String(n)\<close> for an index.\<close>

definition digit_val :: "char \<Rightarrow> nat" where
  "digit_val c = (case map_of (zip digit_chars [0, 1, 2, 3, 4, 5, 6, 7, 8, 9]) c of
                    Some n \<Rightarrow> n | None \<Rightarrow> 0)"

definition nat_of_digits :: "string \<Rightarrow> nat" where
  "nat_of_digits s = foldl (\<lambda>a c. 10 * a + digit_val c) 0 s"

definition digit_char :: "nat \<Rightarrow> char" where
  "digit_char n = (case map_of (zip [0, 1, 2, 3, 4, 5, 6, 7, 8, 9] digit_chars) n of
                     Some c \<Rightarrow> c | None \<Rightarrow> CHR ''0'')"

fun string_of_nat :: "nat \<Rightarrow> string" where
  "string_of_nat n =
     (if n < 10 then [digit_char n] else string_of_nat (n div 10) @ [digit_char (n mod 10)])"

declare string_of_nat.simps [simp del]

section \<open>The catalog store\<close>

text \<open>
  \<open>this.locales\<close> is a JavaScript \<open>Map\<close>. A \<open>Map\<close> iterates its keys in insertion order,
  and \<open>Map.prototype.set\<close> on a key that is already present replaces the value where the
  key stands; only a new key goes to the end. The store is therefore an association
  list that \<open>map_set\<close> updates in place.
\<close>

type_synonym ('k, 'v) jsmap = "('k \<times> 'v) list"

definition map_has :: "('k, 'v) jsmap \<Rightarrow> 'k \<Rightarrow> bool" where
  "map_has m k \<longleftrightarrow> map_of m k \<noteq> None"

definition map_get :: "('k, 'v) jsmap \<Rightarrow> 'k \<Rightarrow> 'v option" where
  "map_get m k = map_of m k"

definition map_set :: "('k, 'v) jsmap \<Rightarrow> 'k \<Rightarrow> 'v \<Rightarrow> ('k, 'v) jsmap" where
  "map_set m k v =
     (if map_has m k then map (\<lambda>(k', v'). if k' = k then (k', v) else (k', v')) m
      else m @ [(k, v)])"

definition map_keys :: "('k, 'v) jsmap \<Rightarrow> 'k list" where
  "map_keys m = map fst m"

text \<open>
  Catalog data is what \<open>JSON.parse\<close> yields. \<open>JNative\<close> stands for the members an
  object or an array inherits from its prototype (\<open>toString\<close>, \<open>constructor\<close>,
  \<open>__proto__\<close>, ...): functions and prototype objects, none of which is a string or
  has a string among its own members.
\<close>

datatype jsval =
    JNull
  | JBool bool
  | JNum int
  | JStr string
  | JArr "jsval list"
  | JObj "(string \<times> jsval) list"
  | JNative

fun truthy :: "jsval \<Rightarrow> bool" where
  "truthy JNull = False"
| "truthy (JBool b) = b"
| "truthy (JNum n) = (n \<noteq> 0)"
| "truthy (JStr s) = (s \<noteq> [])"
| "truthy (JArr xs) = True"
| "truthy (JObj kvs) = True"
| "truthy JNative = True"

text \<open>\<open>typeof v === 'object'\<close>; it holds of \<open>null\<close> too.\<close>

fun typeof_object :: "jsval \<Rightarrow> bool" where
  "typeof_object JNull = True"
| "typeof_object (JArr xs) = True"
| "typeof_object (JObj kvs) = True"
| "typeof_object v = False"

definition object_prototype_names :: "string list" where
  "object_prototype_names =
     [''constructor'', ''__proto__'', ''hasOwnProperty'', ''isPrototypeOf'',
      ''propertyIsEnumerable'', ''toLocaleString'', ''toString'', ''valueOf'',
      ''__defineGetter__'', ''__defineSetter__'', ''__lookupGetter__'', ''__lookupSetter__'']"

definition array_prototype_names :: "string list" where
  "array_prototype_names =
     [''at'', ''concat'', ''copyWithin'', ''entries'', ''every'', ''fill'', ''filter'',
      ''find'', ''findIndex'', ''findLast'', ''findLastIndex'', ''flat'', ''flatMap'',
      ''forEach'', ''includes'', ''indexOf'', ''join'', ''keys'', ''lastIndexOf'', ''map'',
      ''pop'', ''push'', ''reduce'', ''reduceRight'', ''reverse'', ''shift'', ''slice'',
      ''some'', ''sort'', ''splice'', ''toReversed'', ''toSorted'', ''toSpliced'',
      ''unshift'', ''values'', ''with'']"

text \<open>
  An array index as a property name: a decimal numeral without leading zeros, below
  \<open>2\<^sup>3\<^sup>2 - 1 = 4294967295\<close>. The bound is checked on the digits.
\<close>

fun digits_less :: "nat list \<Rightarrow> nat list \<Rightarrow> bool" where
  "digits_less (x # xs) (y # ys) = (x < y \<or> (x = y \<and> digits_less xs ys))"
| "digits_less xs ys = False"

definition below_max_index :: "string \<Rightarrow> bool" where
  "below_max_index k \<longleftrightarrow>
     length k < 10 \<or>
     (length k = 10 \<and> digits_less (map digit_val k) [4, 2, 9, 4, 9, 6, 7, 2, 9, 5])"

definition is_array_index :: "string \<Rightarrow> bool" where
  "is_array_index k \<longleftrightarrow>
     k \<noteq> [] \<and> list_all is_digit k \<and> (k = ''0'' \<or> hd k \<noteq> CHR ''0'')
       \<and> below_max_index k"

text \<open>
  \<open>get_prop v k\<close> is \<open>None\<close> when \<open>k in v\<close> is false and \<open>Some (v[k])\<close> otherwise, for
  \<open>v\<close> an object or an array. An own member hides an inherited one.
\<close>

fun get_prop :: "jsval \<Rightarrow> string \<Rightarrow> jsval option" where
  "get_prop (JObj kvs) k =
     (case map_of kvs k of
        Some v \<Rightarrow> Some v
      | None \<Rightarrow> if k \<in> set object_prototype_names then Some JNative else None)"
| "get_prop (JArr xs) k =
     (if is_array_index k \<and> nat_of_digits k < length xs then Some (xs ! nat_of_digits k)
      else if k = ''length'' then Some (JNum (int (length xs)))
      else if k \<in> set array_prototype_names \<or> k \<in> set object_prototype_names
        then Some JNative
      else None)"
| "get_prop v k = None"

text \<open>
  The loop of \<open>getFromLocale\<close> over the segments of the key; \<open>None\<close> is its
  \<open>return null\<close>. On a \<open>JNative\<close> the source either stops (a function is not of type
  \<open>object\<close>) or walks on through prototype members, which never ends in a string; both
  give \<open>null\<close>.
\<close>

fun walk :: "jsval \<Rightarrow> string list \<Rightarrow> jsval option" where
  "walk current [] = Some current"
| "walk current (k # ks) =
     (if truthy current \<and> typeof_object current then
        (case get_prop current k of
           Some v \<Rightarrow> walk v ks
         | None \<Rightarrow> None)
      else None)"

type_synonym store = "(string, jsval) jsmap"

definition getFromLocale :: "store \<Rightarrow> string \<Rightarrow> string \<Rightarrow> string option" where
  "getFromLocale locales key loc =
     (case map_get locales loc of
        None \<Rightarrow> None
      | Some localeData \<Rightarrow>
          if \<not> truthy localeData then None
          else (case walk localeData (split_on CHR ''.'' key) of
                  Some (JStr s) \<Rightarrow> Some s
                | _ \<Rightarrow> None))"

definition getAvailableLocales :: "store \<Rightarrow> string list" where
  "getAvailableLocales locales = map_keys locales"

definition getFirstAvailableLocale :: "store \<Rightarrow> string option" where
  "getFirstAvailableLocale locales =
     (case map_keys locales of [] \<Rightarrow> None | l # _ \<Rightarrow> Some l)"

definition addLocale :: "store \<Rightarrow> string \<Rightarrow> jsval \<Rightarrow> store" where
  "addLocale locales loc data = map_set locales loc data"

definition hasLocale :: "store \<Rightarrow> string \<Rightarrow> bool" where
  "hasLocale locales loc = map_has locales loc"



text \<open>
  The paths of a catalog tree, as the specification speaks of them: a path leads through
  mapping nodes, by their own keys, to a string leaf. \<open>join_dots\<close> writes a path as a
  dotted key.
\<close>

fun leaf_at :: "jsval \<Rightarrow> string list \<Rightarrow> string option" where
  "leaf_at (JStr s) [] = Some s"
| "leaf_at (JObj kvs) (k # ks) =
     (case map_of kvs k of Some v \<Rightarrow> leaf_at v ks | None \<Rightarrow> None)"
| "leaf_at v ks = None"

fun join_dots :: "string list \<Rightarrow> string" where
  "join_dots [] = []"
| "join_dots [s] = s"
| "join_dots (s # t # ts) = s @ CHR ''.'' # join_dots (t # ts)"

section \<open>The interpolator\<close>

text \<open>
  What a \<open>throw\<close> can throw: a \<open>TypeError\<close> of the engine, some other value thrown by the
  host (the hook, the interpreter, the database), and \<open>null\<close> or \<open>undefined\<close>, which
  unlike the others have no property \<open>message\<close> to read.
\<close>

datatype error = TypeError | HostError | NullThrown

text \<open>
  \<open>text.replace(/\{(C+)\}/g, f)\<close> for a character class \<open>C\<close> that holds neither brace:
  the scan goes from left to right; at an opening brace followed by a non-empty maximal
  run of \<open>C\<close> and a closing brace the callback \<open>f\<close> gets the match and the run, and the scan
  goes on behind the match, so what \<open>f\<close> returned is not looked at again by this pass.
  Elsewhere the character is copied. A callback that throws ends the call.
\<close>

definition token_at :: "(char \<Rightarrow> bool) \<Rightarrow> char \<Rightarrow> string \<Rightarrow> bool" where
  "token_at cls c cs \<longleftrightarrow>
     c = CHR ''{'' \<and> takeWhile cls cs \<noteq> [] \<and> dropWhile cls cs \<noteq> []
       \<and> hd (dropWhile cls cs) = CHR ''}''"

function replace_tokens ::
  "(char \<Rightarrow> bool) \<Rightarrow> (string \<Rightarrow> string \<Rightarrow> error + string) \<Rightarrow> string \<Rightarrow> error + string"
where
  "replace_tokens cls f [] = Inr []"
| "replace_tokens cls f (c # cs) =
     (if token_at cls c cs
      then (case f (c # takeWhile cls cs @ ''}'') (takeWhile cls cs) of
              Inl e \<Rightarrow> Inl e
            | Inr v \<Rightarrow>
                (case replace_tokens cls f (tl (dropWhile cls cs)) of
                   Inl e \<Rightarrow> Inl e
                 | Inr r \<Rightarrow> Inr (v @ r)))
      else (case replace_tokens cls f cs of
              Inl e \<Rightarrow> Inl e
            | Inr r \<Rightarrow> Inr (c # r)))"
  by pat_completeness auto
termination
proof (relation "measure (\<lambda>(cls, f, s). length s)")
  show "wf (measure (\<lambda>(cls, f, s). length s))" by simp
next
  fix cls :: "char \<Rightarrow> bool" and f :: "string \<Rightarrow> string \<Rightarrow> error + string"
    and c :: char and cs :: string
  have "length (tl (dropWhile cls cs)) \<le> length cs"
    using length_dropWhile_le [of cls cs] by simp
  then show "((cls, f, tl (dropWhile cls cs)), (cls, f, c # cs))
      \<in> measure (\<lambda>(cls, f, s). length s)"
    by simp
next
  fix cls :: "char \<Rightarrow> bool" and f :: "string \<Rightarrow> string \<Rightarrow> error + string"
    and c :: char and cs :: string
  show "((cls, f, cs), (cls, f, c # cs)) \<in> measure (\<lambda>(cls, f, s). length s)"
    by simp
qed

declare replace_tokens.simps(2) [simp del]

text \<open>
  A parameter object is the list of its own properties in the order of their creation.
  Assigning to \<open>__proto__\<close> on a plain object goes to the inherited setter, which ignores
  a string; every other assignment creates the property or overwrites it in place.
  \<open>Object.entries\<close> lists the array-index keys first, in ascending order, then the others
  in the order of their creation.
\<close>

type_synonym obj = "(string \<times> string) list"

definition obj_set :: "obj \<Rightarrow> string \<Rightarrow> string \<Rightarrow> obj" where
  "obj_set ob k v = (if k = ''__proto__'' then ob else map_set ob k v)"

definition obj_keys :: "obj \<Rightarrow> string list" where
  "obj_keys ob = map fst ob"

definition obj_entries :: "obj \<Rightarrow> (string \<times> string) list" where
  "obj_entries ob =
     sort_key (\<lambda>(k, v). nat_of_digits k) (filter (\<lambda>(k, v). is_array_index k) ob)
       @ filter (\<lambda>(k, v). \<not> is_array_index k) ob"

text \<open>
  The callback of \<open>interpolateNamedParams\<close>. \<open>params.hasOwnProperty\<close> is the inherited
  function unless \<open>params\<close> has an own property of that name, which is then a string, and
  calling it throws.
\<close>

definition named_replacer :: "obj \<Rightarrow> string \<Rightarrow> string \<Rightarrow> error + string" where
  "named_replacer params match name =
     (let lowerName = toLowerCase name in
      if map_has params ''hasOwnProperty'' then Inl TypeError
      else (case map_of params lowerName of
              Some v \<Rightarrow> Inr v
            | None \<Rightarrow>
                (case find (\<lambda>(key, value). toLowerCase key = lowerName) (obj_entries params) of
                   Some (key, value) \<Rightarrow> Inr value
                 | None \<Rightarrow> Inr match)))"

definition interpolateNamedParams :: "string \<Rightarrow> obj \<Rightarrow> error + string" where
  "interpolateNamedParams text params = replace_tokens is_word (named_replacer params) text"

definition namedMappings :: "(string \<times> nat) list" where
  "namedMappings =
     [(''user'', 0), (''username'', 0), (''name'', 0), (''server'', 1), (''servername'', 1),
      (''guild'', 1), (''channel'', 2), (''level'', 3), (''value'', 4)]"

text \<open>\<open>params[i] !== undefined ? params[i] : match\<close> on an array of strings.\<close>

definition param_or :: "string list \<Rightarrow> nat \<Rightarrow> string \<Rightarrow> string" where
  "param_or params i match = (if i < length params then params ! i else match)"

definition index_replacer :: "string list \<Rightarrow> string \<Rightarrow> string \<Rightarrow> error + string" where
  "index_replacer params match index = Inr (param_or params (nat_of_digits index) match)"

text \<open>The loop over the entries of the form \<open>key=value\<close>; \<open>None\<close> when it falls through.\<close>

fun scan_params :: "string \<Rightarrow> string list \<Rightarrow> string option" where
  "scan_params lowerName [] = None"
| "scan_params lowerName (param # ps) =
     (if CHR ''='' \<in> set param then
        (case split_limit CHR ''='' 2 param of
           key # value # _ \<Rightarrow>
             if toLowerCase key = lowerName then Some value else scan_params lowerName ps
         | _ \<Rightarrow> scan_params lowerName ps)
      else scan_params lowerName ps)"

definition alias_replacer :: "string list \<Rightarrow> string \<Rightarrow> string \<Rightarrow> error + string" where
  "alias_replacer params match name =
     (let lowerName = toLowerCase name in
      case map_of namedMappings lowerName of
        Some index \<Rightarrow> Inr (param_or params index match)
      | None \<Rightarrow>
          (case scan_params lowerName params of
             Some value \<Rightarrow> Inr value
           | None \<Rightarrow> Inr match))"

definition interpolateArrayParams :: "string \<Rightarrow> string list \<Rightarrow> error + string" where
  "interpolateArrayParams text params =
     (if params = [] then Inr text
      else (case replace_tokens is_digit (index_replacer params) text of
              Inl e \<Rightarrow> Inl e
            | Inr text1 \<Rightarrow> replace_tokens is_word (alias_replacer params) text1))"

datatype jsparams = PNull | PUndefined | PObject obj | PArray "string list"

fun interpolate :: "string \<Rightarrow> jsparams \<Rightarrow> error + string" where
  "interpolate text PNull = Inr text"
| "interpolate text PUndefined = Inr text"
| "interpolate text (PObject params) = interpolateNamedParams text params"
| "interpolate text (PArray params) = interpolateArrayParams text params"



section \<open>The argument parser\<close>

record parsed =
  p_locale :: "string option"
  p_params :: obj
  p_forceLocale :: bool

text \<open>\<open>/^[a-z]{2,3}$/i\<close>\<close>

definition is_lang_code :: "string \<Rightarrow> bool" where
  "is_lang_code s \<longleftrightarrow> (length s = 2 \<or> length s = 3) \<and> list_all is_alpha s"

text \<open>The body of the loop of \<open>parseArguments\<close>, on the three variables it updates.\<close>

definition parse_step :: "parsed \<Rightarrow> string \<Rightarrow> parsed" where
  "parse_step st arg =
     (if arg = [] then st
      else
        (let trimmedArg = trim arg in
         if CHR '':'' \<in> set trimmedArg then
           (case split_limit CHR '':'' 2 trimmedArg of
              paramKey # paramValue # _ \<Rightarrow>
                if paramKey \<noteq> [] \<and> paramValue \<noteq> []
                then st\<lparr>p_params := obj_set (p_params st) (trim paramKey) (trim paramValue)\<rparr>
                else st
            | _ \<Rightarrow> st)
         else if CHR ''|'' \<in> set trimmedArg then
           (case split_limit CHR ''|'' 2 trimmedArg of
              langParam # defaultLang # _ \<Rightarrow>
                st\<lparr>p_locale :=
                     Some (if trim (remove1 CHR ''?'' langParam) \<noteq> []
                           then trim (remove1 CHR ''?'' langParam) else trim defaultLang),
                   p_forceLocale := True\<rparr>
            | _ \<Rightarrow> st)
         else if is_lang_code trimmedArg then
           st\<lparr>p_locale := Some trimmedArg, p_forceLocale := True\<rparr>
         else
           st\<lparr>p_params :=
                obj_set (p_params st) (string_of_nat (length (obj_keys (p_params st))))
                  trimmedArg\<rparr>))"

definition parseArguments :: "string list \<Rightarrow> parsed" where
  "parseArguments args =
     foldl parse_step \<lparr>p_locale = None, p_params = [], p_forceLocale = False\<rparr> args"

text \<open>The rule an argument falls under, for the arguments the loop does not skip.\<close>

definition is_positional :: "string \<Rightarrow> bool" where
  "is_positional arg \<longleftrightarrow>
     arg \<noteq> [] \<and> CHR '':'' \<notin> set (trim arg) \<and> CHR ''|'' \<notin> set (trim arg)
       \<and> \<not> is_lang_code (trim arg)"

section \<open>The facade\<close>

definition falsy :: "string option \<Rightarrow> bool" where
  "falsy t \<longleftrightarrow> t = None \<or> t = Some []"

text \<open>
  The variable \<open>text\<close> of \<open>getText\<close> when it reaches the second test \<open>if (!text)\<close>: the
  text found under the language given, or else under the first available language when
  that is another one. The \<open>locale\<close> is \<open>null\<close> when nothing was detected and no catalog is
  loaded, and \<open>Map.prototype.get\<close> finds nothing under \<open>null\<close>.
\<close>

definition found_text :: "store \<Rightarrow> string \<Rightarrow> string option \<Rightarrow> string option" where
  "found_text locales key loc =
     (let text = (case loc of None \<Rightarrow> None | Some l \<Rightarrow> getFromLocale locales key l)
      in if falsy text then
           (case getFirstAvailableLocale locales of
              None \<Rightarrow> text
            | Some firstLocale \<Rightarrow>
                if firstLocale \<noteq> [] \<and> Some firstLocale \<noteq> loc
                then getFromLocale locales key firstLocale
                else text)
         else text)"

text \<open>\<open>getText\<close>. An omitted \<open>params\<close> is \<open>[]\<close>.\<close>

definition getText :: "store \<Rightarrow> string \<Rightarrow> string option \<Rightarrow> jsparams \<Rightarrow> error + string" where
  "getText locales key loc params =
     (case found_text locales key loc of
        None \<Rightarrow> Inr key
      | Some t \<Rightarrow>
          if t = [] then Inr key
          else interpolate t (case params of PUndefined \<Rightarrow> PArray [] | p \<Rightarrow> p))"

section \<open>The language detector\<close>

text \<open>
  What the detector reads of the data object \<open>d\<close>: \<open>d.author?.id\<close>,
  \<open>d.data?.author?.id\<close>, \<open>d.guild?.id\<close>, \<open>d.data?.guild?.id\<close> and \<open>d.channel?.id\<close>.
\<close>

record aoi_data =
  author_id :: "string option"
  data_author_id :: "string option"
  guild_id :: "string option"
  data_guild_id :: "string option"
  channel_id :: "string option"

text \<open>\<open>a || b || ''\<close> on identifiers that may be missing or empty.\<close>

fun first_truthy :: "string option list \<Rightarrow> string" where
  "first_truthy [] = []"
| "first_truthy (None # xs) = first_truthy xs"
| "first_truthy (Some s # xs) = (if s = [] then first_truthy xs else s)"

text \<open>
  \<open>s.replace(/pat/g, repl)\<close> for a literal pattern and a replacement string, in which
  \<open>$$\<close>, \<open>$&\<close>, \<open>$`\<close> and \<open>$'\<close> stand for a dollar sign, the match, the text before it and
  the text behind it.
\<close>

fun expand_replacement :: "string \<Rightarrow> string \<Rightarrow> string \<Rightarrow> string \<Rightarrow> string" where
  "expand_replacement matched pre post [] = []"
| "expand_replacement matched pre post [c] = [c]"
| "expand_replacement matched pre post (c # d # r) =
     (if c = CHR ''$'' \<and> d = CHR ''$'' then CHR ''$'' # expand_replacement matched pre post r
      else if c = CHR ''$'' \<and> d = CHR ''&'' then matched @ expand_replacement matched pre post r
      else if c = CHR ''$'' \<and> d = CHR 0x60 then pre @ expand_replacement matched pre post r
      else if c = CHR ''$'' \<and> d = CHR 0x27 then post @ expand_replacement matched pre post r
      else c # expand_replacement matched pre post (d # r))"

function replace_all :: "string \<Rightarrow> string \<Rightarrow> string \<Rightarrow> string \<Rightarrow> string" where
  "replace_all pat repl pre [] = []"
| "replace_all pat repl pre (c # cs) =
     (if pat \<noteq> [] \<and> take (length pat) (c # cs) = pat
      then expand_replacement pat pre (drop (length pat) (c # cs)) repl
             @ replace_all pat repl (pre @ pat) (drop (length pat) (c # cs))
      else c # replace_all pat repl (pre @ [c]) cs)"
  by pat_completeness auto
termination
  by (relation "measure (\<lambda>(pat, repl, pre, s). length s)") (auto simp: neq_Nil_conv)

declare replace_all.simps(2) [simp del]

text \<open>\<open>value.replace(/\{[^}]*\}/g, '')\<close>\<close>

function strip_braces :: "string \<Rightarrow> string" where
  "strip_braces [] = []"
| "strip_braces (c # cs) =
     (if c = CHR ''{'' \<and> dropWhile (\<lambda>x. x \<noteq> CHR ''}'') cs \<noteq> []
      then strip_braces (tl (dropWhile (\<lambda>x. x \<noteq> CHR ''}'') cs))
      else c # strip_braces cs)"
  by pat_completeness auto
termination
proof (relation "measure length")
  show "wf (measure length)" by simp
next
  fix c :: char and cs :: string
  have "length (tl (dropWhile (\<lambda>x. x \<noteq> CHR ''}'') cs)) \<le> length cs"
    using length_dropWhile_le [of "\<lambda>x. x \<noteq> CHR ''}''" cs] by simp
  then show "(tl (dropWhile (\<lambda>x. x \<noteq> CHR ''}'') cs), c # cs) \<in> measure length"
    by simp
next
  fix c :: char and cs :: string
  show "(cs, c # cs) \<in> measure length" by simp
qed

declare strip_braces.simps(2) [simp del]

text \<open>\<open>s.includes(p)\<close>\<close>

fun includes_str :: "string \<Rightarrow> string \<Rightarrow> bool" where
  "includes_str [] p = (p = [])"
| "includes_str (c # cs) p = (take (length p) (c # cs) = p \<or> includes_str cs p)"

text \<open>
  \<open>command.match(/name\[([^;]+);([^\]]+)\]/)\<close>: the two groups of the leftmost match.
  Each group is a maximal run, since the character behind it is the one it excludes.
\<close>

definition match_at :: "string \<Rightarrow> string \<Rightarrow> (string \<times> string) option" where
  "match_at name s =
     (if take (length name + 1) s = name @ ''['' then
        (let r = drop (length name + 1) s;
             g1 = takeWhile (\<lambda>x. x \<noteq> CHR '';'') r;
             r1 = dropWhile (\<lambda>x. x \<noteq> CHR '';'') r
         in if g1 \<noteq> [] \<and> r1 \<noteq> [] then
              (let g2 = takeWhile (\<lambda>x. x \<noteq> CHR '']'') (tl r1);
                   r2 = dropWhile (\<lambda>x. x \<noteq> CHR '']'') (tl r1)
               in if g2 \<noteq> [] \<and> r2 \<noteq> [] then Some (g1, g2) else None)
            else None)
      else None)"

fun match_var :: "string \<Rightarrow> string \<Rightarrow> (string \<times> string) option" where
  "match_var name [] = None"
| "match_var name (c # cs) =
     (case match_at name (c # cs) of
        Some g \<Rightarrow> Some g
      | None \<Rightarrow> match_var name cs)"

text \<open>
  The world outside. The interpreter is given the command and throws, or returns a
  result. \<open>NoCode\<close> is a result for which \<open>result && result.code\<close> is falsy: no result, or
  a code that is \<open>null\<close>, \<open>undefined\<close>, \<open>0\<close>, \<open>false\<close> or the empty string. \<open>Code s\<close> is
  a result whose code is the string \<open>s\<close>. \<open>BadCode\<close> is a result whose code is truthy
  and has no method \<open>replace\<close>, such as a number or a plain object. A table of the
  database, asked for a variable and an identifier, throws or returns the \<open>value\<close> fields
  of the rows it found; \<open>db_tables\<close> is \<open>None\<close> when the client has no database.
  A value read from there is \<open>null\<close>, a string, or something else that is truthy.
\<close>

datatype interp_result = NoCode | Code string | BadCode

datatype lang_value = LNull | LStr string | LOther

fun lv_truthy :: "lang_value \<Rightarrow> bool" where
  "lv_truthy LNull = False"
| "lv_truthy (LStr s) = (s \<noteq> [])"
| "lv_truthy LOther = True"

record environment =
  interpreter :: "string \<Rightarrow> error + interp_result"
  db_tables :: "(string \<times> (string \<Rightarrow> string \<Rightarrow> error + lang_value list)) list option"

text \<open>
  How a block of the handler of \<open>interpreterError\<close> ends: it returns a value, control
  goes on behind it, or an exception leaves it and reaches the outer handler of
  \<open>executeLanguageSource\<close>.
\<close>

datatype block_end = Return lang_value | GoOn | Abort

text \<open>
  The innermost part of a block: the table is looked up by its name and asked. When the
  query throws, its handler reads \<open>dbError.message\<close> for the log and control goes on;
  reading it throws when the value thrown is \<open>null\<close> or \<open>undefined\<close>.
\<close>

definition query_table ::
  "environment \<Rightarrow> string \<Rightarrow> string \<Rightarrow> string \<Rightarrow> block_end" where
  "query_table env tableName varName targetId =
     (case db_tables env of
        None \<Rightarrow> GoOn
      | Some tables \<Rightarrow>
          (case map_of tables tableName of
             None \<Rightarrow> GoOn
           | Some query \<Rightarrow>
               (case query varName targetId of
                  Inl dbError \<Rightarrow> if dbError = NullThrown then Abort else GoOn
                | Inr [] \<Rightarrow> GoOn
                | Inr (row # _) \<Rightarrow> if lv_truthy row then Return row else GoOn)))"

text \<open>One of the two blocks of the handler, for the variable function \<open>name\<close>.\<close>

definition db_fallback :: "environment \<Rightarrow> string \<Rightarrow> string \<Rightarrow> string \<Rightarrow> block_end" where
  "db_fallback env name tableName command =
     (if includes_str command (name @ ''['') then
        (case match_var name command of
           None \<Rightarrow> GoOn
         | Some (varName, targetId) \<Rightarrow> query_table env tableName varName targetId)
      else GoOn)"

definition build_command :: "string \<Rightarrow> aoi_data \<Rightarrow> string" where
  "build_command source d =
     replace_all ''{channelId}'' (first_truthy [channel_id d]) []
       (replace_all ''{guildId}'' (first_truthy [guild_id d, data_guild_id d]) []
          (replace_all ''{userId}'' (first_truthy [author_id d, data_author_id d]) [] source))"

text \<open>
  \<open>executeLanguageSource\<close>. A \<open>BadCode\<close> makes \<open>value.replace\<close> throw inside the inner
  \<open>try\<close>, which leads to the same handler as a throwing interpreter. The outer handler
  returns \<open>null\<close> for an exception that leaves that handler, and what it reads the
  message of is then a \<open>TypeError\<close>; so the function itself never throws. \<open>LNull\<close> is its
  \<open>null\<close>.
\<close>

definition executeLanguageSource :: "environment \<Rightarrow> string \<Rightarrow> aoi_data \<Rightarrow> lang_value" where
  "executeLanguageSource env source d =
     (let command = build_command source d;
          fallback =
            (case db_fallback env ''getUserVar'' ''__aoijs_vars__'' command of
               Return v \<Rightarrow> v
             | Abort \<Rightarrow> LNull
             | GoOn \<Rightarrow>
                 (case db_fallback env ''getServerVar'' ''main'' command of
                    Return v \<Rightarrow> v
                  | Abort \<Rightarrow> LNull
                  | GoOn \<Rightarrow> LNull))
      in case interpreter env command of
           Inl interpreterError \<Rightarrow> fallback
         | Inr BadCode \<Rightarrow> fallback
         | Inr NoCode \<Rightarrow> LNull
         | Inr (Code code) \<Rightarrow>
             if code = [] then LNull
             else (let value = trim (strip_braces code)
                   in if value \<noteq> command \<and> value \<noteq> [] \<and> value \<noteq> ''undefined''
                         \<and> value \<noteq> ''null'' \<and> value \<noteq> '' ''
                      then LStr value else LNull))"

record config =
  languageSource :: string
  guildLanguageSource :: string
  customLanguageFunction :: "(aoi_data \<Rightarrow> error + lang_value) option"
  fallbackToGuildLanguage :: bool

text \<open>\<open>lang && locales.hasLocale(lang)\<close>, and the language then returned.\<close>

definition accepted :: "store \<Rightarrow> lang_value \<Rightarrow> string option" where
  "accepted locales lang =
     (case lang of
        LStr s \<Rightarrow> if s \<noteq> [] \<and> hasLocale locales s then Some s else None
      | _ \<Rightarrow> None)"

definition user_stage :: "config \<Rightarrow> environment \<Rightarrow> aoi_data \<Rightarrow> store \<Rightarrow> string option" where
  "user_stage cfg env d locales =
     (if languageSource cfg \<noteq> []
      then accepted locales (executeLanguageSource env (languageSource cfg) d)
      else None)"

definition guild_stage :: "config \<Rightarrow> environment \<Rightarrow> aoi_data \<Rightarrow> store \<Rightarrow> string option" where
  "guild_stage cfg env d locales =
     (if fallbackToGuildLanguage cfg \<and> guildLanguageSource cfg \<noteq> []
      then accepted locales (executeLanguageSource env (guildLanguageSource cfg) d)
      else None)"

text \<open>The body of the \<open>try\<close> of \<open>detectUserLanguage\<close>; only the hook can throw in it.\<close>

definition detect_body ::
  "config \<Rightarrow> environment \<Rightarrow> aoi_data \<Rightarrow> store \<Rightarrow> error + string option" where
  "detect_body cfg env d locales =
     (case (case customLanguageFunction cfg of
              None \<Rightarrow> Inr None
            | Some hook \<Rightarrow>
                (case hook d of
                   Inl e \<Rightarrow> Inl e
                 | Inr customLang \<Rightarrow> Inr (accepted locales customLang))) of
        Inl e \<Rightarrow> Inl e
      | Inr (Some customLang) \<Rightarrow> Inr (Some customLang)
      | Inr None \<Rightarrow>
          (case user_stage cfg env d locales of
             Some userLang \<Rightarrow> Inr (Some userLang)
           | None \<Rightarrow>
               (case guild_stage cfg env d locales of
                  Some guildLang \<Rightarrow> Inr (Some guildLang)
                | None \<Rightarrow> Inr None)))"

text \<open>
  \<open>detectUserLanguage\<close>. Its handler reads \<open>error.message\<close> for the log and returns
  \<open>null\<close>; when the value thrown is \<open>null\<close> or \<open>undefined\<close>, reading the message throws a
  \<open>TypeError\<close>, which leaves the function.
\<close>

definition detectUserLanguage ::
  "config \<Rightarrow> environment \<Rightarrow> aoi_data \<Rightarrow> store \<Rightarrow> error + string option" where
  "detectUserLanguage cfg env d locales =
     (case detect_body cfg env d locales of
        Inl e \<Rightarrow> if e = NullThrown then Inl TypeError else Inr None
      | Inr lang \<Rightarrow> Inr lang)"

section \<open>The function \<open>$locale\<close>\<close>

datatype fn_result = FnError string | FnThrown error | FnResult string

text \<open>
  The code of \<open>$locale\<close> from \<open>data.inside.splits\<close> on. It hands the object that
  \<open>parseArguments\<close> built to \<open>getText\<close>.
\<close>

definition locale_function ::
  "config \<Rightarrow> environment \<Rightarrow> store \<Rightarrow> aoi_data \<Rightarrow> string list \<Rightarrow> fn_result" where
  "locale_function cfg env locales d splits =
     (case splits of
        [] \<Rightarrow> FnError ''Key not specified in $locale function''
      | key # args \<Rightarrow>
          if key = [] \<or> trim key = [] then FnError ''Key not specified in $locale function''
          else
            (let trimmedKey = trim key;
                 pa = parseArguments args
             in case (if \<not> p_forceLocale pa then detectUserLanguage cfg env d locales
                      else Inr (p_locale pa)) of
                  Inl e \<Rightarrow> FnThrown e
                | Inr loc \<Rightarrow>
                    (case getText locales trimmedKey
                            (if falsy loc then getFirstAvailableLocale locales else loc)
                            (PObject (p_params pa)) of
                       Inl e \<Rightarrow> FnThrown e
                     | Inr text \<Rightarrow> FnResult text)))"

section \<open>Example data\<close>

definition demo_store :: store where
  "demo_store =
     [(''en'', JObj [(''hello'', JStr ''Hello {user}!'')]),
      (''tr'', JObj [(''hello'', JStr ''Merhaba {user}!'')])]"

definition demo_tree :: jsval where
  "demo_tree =
     JObj [(''user'', JObj [(''profile'', JObj [(''name'', JStr ''Usuario: {user}'')])])]"

definition demo_data :: aoi_data where
  "demo_data =
     \<lparr>author_id = Some ''42'', data_author_id = None, guild_id = Some ''7'',
      data_guild_id = None, channel_id = Some ''9''\<rparr>"

definition demo_config :: config where
  "demo_config =
     \<lparr>languageSource = ''getUserVar[language;{userId}]'',
      guildLanguageSource = ''getServerVar[language;{guildId}]'',
      customLanguageFunction = Some (\<lambda>d. Inl HostError),
      fallbackToGuildLanguage = True\<rparr>"

definition demo_env :: environment where
  "demo_env =
     \<lparr>interpreter =
        (\<lambda>command. if command = ''getUserVar[language;42]'' then Inr (Code ''tr'')
                    else Inr NoCode),
      db_tables = None\<rparr>"



definition demo_store_partial :: store where
  "demo_store_partial =
     [(''en'', JObj [(''hello'', JStr ''Hello {user}!''),
                     (''bye'', JStr ''Bye {user}, see {0}'')]),
      (''tr'', JObj [(''hello'', JStr ''Merhaba {user}!'')])]"

section \<open>Properties of the store\<close>

lemma split_on_no_sep: "sep \<notin> set s \<Longrightarrow> split_on sep s = [s]"
  by (induction s) auto

lemma split_on_append_sep:
  "sep \<notin> set s \<Longrightarrow> split_on sep (s @ sep # t) = s # split_on sep t"
  by (induction s) auto

lemma split_join:
  "segs \<noteq> [] \<Longrightarrow> \<forall>s \<in> set segs. CHR ''.'' \<notin> set s \<Longrightarrow>
     split_on CHR ''.'' (join_dots segs) = segs"
proof (induction segs rule: join_dots.induct)
  case 1 then show ?case by simp
next
  case (2 s) then show ?case by (simp add: split_on_no_sep)
next
  case (3 s t ts)
  then show ?case by (simp add: split_on_append_sep)
qed

lemma map_set_has: "map_has (map_set m k v) k"
  by (induction m) (auto simp: map_set_def map_has_def)

lemma map_of_replace:
  "map_of m k \<noteq> None \<Longrightarrow>
   map_of (map (\<lambda>(k', v'). if k' = k then (k', v) else (k', v')) m) k = Some v"
  by (induction m) (auto split: if_splits)

lemma map_set_get: "map_get (map_set m k v) k = Some v"
proof (cases "map_has m k")
  case True
  then show ?thesis by (simp add: map_set_def map_get_def map_has_def map_of_replace)
next
  case False
  then show ?thesis by (simp add: map_set_def map_get_def map_has_def map_add_def)
qed

lemma map_set_keys_present: "map_has m k \<Longrightarrow> map_keys (map_set m k v) = map_keys m"
  by (auto simp: map_set_def map_keys_def split: prod.splits)

lemma map_set_keys_absent: "\<not> map_has m k \<Longrightarrow> map_keys (map_set m k v) = map_keys m @ [k]"
  by (auto simp: map_set_def map_keys_def)

lemma leaf_walk: "leaf_at t ks = Some s \<Longrightarrow> walk t ks = Some (JStr s)"
proof (induction t ks rule: leaf_at.induct)
  case (1 s) then show ?case by simp
next
  case (2 kvs k ks)
  then show ?case by (auto split: option.splits)
qed simp_all

lemma leaf_truthy: "leaf_at t (k # ks) = Some s \<Longrightarrow> truthy t"
  by (cases t) auto

lemma getFromLocale_loaded:
  "getFromLocale locales key l = Some t \<Longrightarrow> l \<in> set (getAvailableLocales locales)"
  by (auto simp: getFromLocale_def getAvailableLocales_def map_get_def map_keys_def
      split: option.splits dest: map_of_SomeD intro: rev_image_eqI)

lemma trim_Nil: "trim [] = []"
  by (simp add: trim_def)

text \<open>
  Claim C9. After \<open>addLocale(code, tree)\<close> the store has \<open>code\<close>, and for every path of
  \<open>tree\<close> that leads to a string leaf, its segments free of dots, \<open>getFromLocale\<close> on the
  dotted path and \<open>code\<close> returns that string.
\<close>

theorem addLocale_roundtrip:
  "hasLocale (addLocale locales code tree) code \<and>
   (\<forall>segs s. segs \<noteq> [] \<and> (\<forall>g \<in> set segs. CHR ''.'' \<notin> set g) \<and> leaf_at tree segs = Some s
      \<longrightarrow> getFromLocale (addLocale locales code tree) (join_dots segs) code = Some s)"
proof (intro conjI allI impI)
  show "hasLocale (addLocale locales code tree) code"
    by (simp add: hasLocale_def addLocale_def map_set_has)
next
  fix segs s
  assume a: "segs \<noteq> [] \<and> (\<forall>g \<in> set segs. CHR ''.'' \<notin> set g) \<and> leaf_at tree segs = Some s"
  then have sp: "split_on CHR ''.'' (join_dots segs) = segs" by (simp add: split_join)
  from a obtain k ks where "segs = k # ks" by (cases segs) auto
  with a have tr: "truthy tree" using leaf_truthy by blast
  from a have "walk tree segs = Some (JStr s)" by (simp add: leaf_walk)
  with sp tr show "getFromLocale (addLocale locales code tree) (join_dots segs) code = Some s"
    by (simp add: getFromLocale_def addLocale_def map_set_get)
qed

text \<open>
  Claim C9, at the store of the examples: adding the tree \<open>demo_tree\<close> under \<open>es\<close> and
  reading \<open>user.profile.name\<close> back.
\<close>

theorem addLocale_roundtrip_witness:
  "hasLocale (addLocale demo_store ''es'' demo_tree) ''es'' \<and>
   leaf_at demo_tree [''user'', ''profile'', ''name''] = Some ''Usuario: {user}'' \<and>
   getFromLocale (addLocale demo_store ''es'' demo_tree) ''user.profile.name'' ''es''
     = Some ''Usuario: {user}''"
proof -
  let ?segs = "[''user'', ''profile'', ''name'']"
  have h: "?segs \<noteq> [] \<and> (\<forall>g \<in> set ?segs. CHR ''.'' \<notin> set g)
      \<and> leaf_at demo_tree ?segs = Some ''Usuario: {user}''"
    by (simp add: demo_tree_def)
  have j: "join_dots ?segs = ''user.profile.name''" by simp
  note r = addLocale_roundtrip [of demo_store "''es''" demo_tree]
  from r have a: "hasLocale (addLocale demo_store ''es'' demo_tree) ''es''"
    by (rule conjunct1)
  from r h have "getFromLocale (addLocale demo_store ''es'' demo_tree) (join_dots ?segs) ''es''
      = Some ''Usuario: {user}''"
    by blast
  with a h j show ?thesis by simp
qed

text \<open>
  Claim C7 fails as stated. Adding \<open>en\<close> again to a store that loaded \<open>en\<close> and then \<open>tr\<close>
  leaves \<open>en\<close> the first available language and the order \<open>en\<close>, \<open>tr\<close>: the code that is
  added again does not move to the end.
\<close>

theorem addLocale_existing_counterexample:
  "getFirstAvailableLocale (addLocale demo_store ''en'' (JObj [(''hello'', JStr ''Hi'')]))
     = Some ''en'' \<and>
   getFirstAvailableLocale (addLocale demo_store ''en'' (JObj [(''hello'', JStr ''Hi'')]))
     \<noteq> Some ''tr'' \<and>
   getAvailableLocales (addLocale demo_store ''en'' (JObj [(''hello'', JStr ''Hi'')]))
     = [''en'', ''tr'']"
  by (simp add: getFirstAvailableLocale_def getAvailableLocales_def addLocale_def map_set_def
      map_has_def map_keys_def demo_store_def)

text \<open>
  Claim C7 as amended. \<open>addLocale\<close> on a code the store already has replaces the catalog
  and leaves the order of the codes, and with it the first available language, as they
  were; on a new code it puts the code at the end.
\<close>

theorem addLocale_order:
  "(hasLocale locales code \<longrightarrow>
      getAvailableLocales (addLocale locales code tree) = getAvailableLocales locales \<and>
      getFirstAvailableLocale (addLocale locales code tree) = getFirstAvailableLocale locales) \<and>
   (\<not> hasLocale locales code \<longrightarrow>
      getAvailableLocales (addLocale locales code tree) = getAvailableLocales locales @ [code])"
  by (simp add: hasLocale_def addLocale_def getAvailableLocales_def getFirstAvailableLocale_def
      map_set_keys_present map_set_keys_absent)

text \<open>
  Claim C7 as amended, at the store of the examples: \<open>en\<close> is there and stays first,
  \<open>es\<close> is new and comes last.
\<close>

theorem addLocale_order_witness:
  "hasLocale demo_store ''en'' \<and>
   getAvailableLocales (addLocale demo_store ''en'' demo_tree) = [''en'', ''tr''] \<and>
   getFirstAvailableLocale (addLocale demo_store ''en'' demo_tree) = Some ''en'' \<and>
   \<not> hasLocale demo_store ''es'' \<and>
   getAvailableLocales (addLocale demo_store ''es'' demo_tree) = [''en'', ''tr'', ''es'']"
proof -
  have h1: "hasLocale demo_store ''en''"
    by (simp add: hasLocale_def map_has_def demo_store_def)
  have h2: "\<not> hasLocale demo_store ''es''"
    by (simp add: hasLocale_def map_has_def demo_store_def)
  have k: "getAvailableLocales demo_store = [''en'', ''tr'']"
    "getFirstAvailableLocale demo_store = Some ''en''"
    by (simp_all add: getAvailableLocales_def getFirstAvailableLocale_def map_keys_def
        demo_store_def)
  from addLocale_order [of demo_store "''en''" demo_tree] h1 k
  have a: "getAvailableLocales (addLocale demo_store ''en'' demo_tree) = [''en'', ''tr'']"
    "getFirstAvailableLocale (addLocale demo_store ''en'' demo_tree) = Some ''en''"
    by simp_all
  from addLocale_order [of demo_store "''es''" demo_tree] h2 k
  have b: "getAvailableLocales (addLocale demo_store ''es'' demo_tree) = [''en'', ''tr'', ''es'']"
    by simp
  from h1 h2 a b show ?thesis by simp
qed

section \<open>Properties of the interpolator\<close>

text \<open>
  Claim C10. For every template, \<open>interpolate\<close> with \<open>null\<close> or \<open>undefined\<close> as parameters
  returns the template as it is.
\<close>

theorem interpolate_without_params:
  "interpolate text PNull = Inr text \<and> interpolate text PUndefined = Inr text"
  by simp

subsection \<open>One pass of replacement\<close>

lemma takeWhile_stop: "\<not> P x \<Longrightarrow> takeWhile P (cs @ x # r) = takeWhile P cs"
  by (induction cs) auto

lemma dropWhile_stop: "\<not> P x \<Longrightarrow> dropWhile P (cs @ x # r) = dropWhile P cs @ x # r"
  by (induction cs) auto

lemma takeWhile_all: "list_all P name \<Longrightarrow> \<not> P x \<Longrightarrow> takeWhile P (name @ x # r) = name"
  by (induction name) auto

lemma dropWhile_all: "list_all P name \<Longrightarrow> \<not> P x \<Longrightarrow> dropWhile P (name @ x # r) = x # r"
  by (induction name) auto

lemma token_at_append:
  assumes "\<not> cls CHR ''{''"
  shows "token_at cls c (cs @ CHR ''{'' # r) = token_at cls c cs"
  using assms by (cases "dropWhile cls cs") (auto simp: token_at_def takeWhile_stop dropWhile_stop)

lemma token_at_name:
  "name \<noteq> [] \<Longrightarrow> list_all cls name \<Longrightarrow> \<not> cls CHR ''}'' \<Longrightarrow>
   token_at cls CHR ''{'' (name @ CHR ''}'' # post)"
  by (simp add: token_at_def takeWhile_all dropWhile_all)

lemma replace_tokens_match:
  "token_at cls c cs \<Longrightarrow> f (c # takeWhile cls cs @ ''}'') (takeWhile cls cs) = Inr v \<Longrightarrow>
   replace_tokens cls f (tl (dropWhile cls cs)) = Inr t \<Longrightarrow>
   replace_tokens cls f (c # cs) = Inr (v @ t)"
  by (simp add: replace_tokens.simps(2))

lemma replace_tokens_copy:
  "\<not> token_at cls c cs \<Longrightarrow> replace_tokens cls f cs = Inr t \<Longrightarrow>
   replace_tokens cls f (c # cs) = Inr (c # t)"
  by (simp add: replace_tokens.simps(2))

lemma replace_tokens_split:
  "\<not> cls CHR ''{'' \<Longrightarrow> replace_tokens cls f pre = Inr a \<Longrightarrow>
   replace_tokens cls f (CHR ''{'' # r) = Inr b \<Longrightarrow>
   replace_tokens cls f (pre @ CHR ''{'' # r) = Inr (a @ b)"
proof (induction cls f pre arbitrary: a rule: replace_tokens.induct)
  case (1 cls f)
  then show ?case by simp
next
  case (2 cls f c cs)
  note brace' = "2.prems"(1)
  show ?case
  proof (cases "token_at cls c cs")
    case True
    then have ne: "dropWhile cls cs \<noteq> []" by (simp add: token_at_def)
    from True "2.prems"(2) obtain v t where
      v: "f (c # takeWhile cls cs @ ''}'') (takeWhile cls cs) = Inr v" and
      t: "replace_tokens cls f (tl (dropWhile cls cs)) = Inr t" and
      a: "a = v @ t"
      by (auto simp: replace_tokens.simps(2) split: sum.splits)
    from "2.IH"(1) [OF True v brace' t "2.prems"(3)]
    have ih: "replace_tokens cls f (tl (dropWhile cls cs) @ CHR ''{'' # r) = Inr (t @ b)" .
    have tl: "tl (dropWhile cls (cs @ CHR ''{'' # r)) = tl (dropWhile cls cs) @ CHR ''{'' # r"
      using ne brace' by (simp add: dropWhile_stop)
    have tw: "takeWhile cls (cs @ CHR ''{'' # r) = takeWhile cls cs"
      using brace' by (simp add: takeWhile_stop)
    have tok: "token_at cls c (cs @ CHR ''{'' # r)"
      using True brace' by (simp add: token_at_append)
    have "replace_tokens cls f (c # cs @ CHR ''{'' # r) = Inr (v @ t @ b)"
      by (rule replace_tokens_match [OF tok]) (simp_all add: tw tl v ih)
    with a show ?thesis by simp
  next
    case False
    from False "2.prems"(2) obtain t where
      t: "replace_tokens cls f cs = Inr t" and a: "a = c # t"
      by (auto simp: replace_tokens.simps(2) split: sum.splits)
    from "2.IH"(2) [OF False brace' t "2.prems"(3)]
    have ih: "replace_tokens cls f (cs @ CHR ''{'' # r) = Inr (t @ b)" .
    have "\<not> token_at cls c (cs @ CHR ''{'' # r)"
      using False brace' by (simp add: token_at_append)
    from replace_tokens_copy [OF this ih] a show ?thesis by simp
  qed
qed

lemma replace_tokens_token:
  assumes "\<not> cls CHR ''{''" "\<not> cls CHR ''}''" "name \<noteq> []" "list_all cls name"
    and "replace_tokens cls f pre = Inr a"
    and "f (CHR ''{'' # name @ ''}'') name = Inr v"
    and "replace_tokens cls f post = Inr b"
  shows "replace_tokens cls f (pre @ CHR ''{'' # name @ ''}'' @ post) = Inr (a @ v @ b)"
proof -
  have tok: "token_at cls CHR ''{'' (name @ CHR ''}'' # post)"
    using assms by (simp add: token_at_name)
  have "replace_tokens cls f (CHR ''{'' # name @ CHR ''}'' # post) = Inr (v @ b)"
    by (rule replace_tokens_match [OF tok]) (simp_all add: assms takeWhile_all dropWhile_all)
  with replace_tokens_split [OF assms(1) assms(5)] show ?thesis by simp
qed

lemma replace_tokens_plain:
  "CHR ''{'' \<notin> set w \<Longrightarrow> replace_tokens cls f post = Inr b \<Longrightarrow>
   replace_tokens cls f (w @ post) = Inr (w @ b)"
  by (induction w) (auto simp: token_at_def replace_tokens.simps(2))

lemma replace_tokens_identity:
  "(\<And>m n. f m n = Inr m) \<Longrightarrow> replace_tokens cls f s = Inr s"
proof (induction cls f s rule: replace_tokens.induct)
  case (1 cls f)
  then show ?case by simp
next
  case (2 cls f c cs)
  show ?case
  proof (cases "token_at cls c cs")
    case True
    have v: "f (c # takeWhile cls cs @ ''}'') (takeWhile cls cs) = Inr (c # takeWhile cls cs @ ''}'')"
      by (rule "2.prems")
    from "2.IH"(1) [OF True v "2.prems"]
    have ih: "replace_tokens cls f (tl (dropWhile cls cs)) = Inr (tl (dropWhile cls cs))" .
    from True have "takeWhile cls cs @ CHR ''}'' # tl (dropWhile cls cs) = cs"
      unfolding token_at_def by (metis hd_Cons_tl takeWhile_dropWhile_id)
    with replace_tokens_match [OF True v ih] show ?thesis by simp
  next
    case False
    from "2.IH"(2) [OF False "2.prems"]
    have "replace_tokens cls f cs = Inr cs" .
    from replace_tokens_copy [OF False this] show ?thesis .
  qed
qed

lemma replace_tokens_total:
  "(\<And>m n. \<exists>v. f m n = Inr v) \<Longrightarrow> \<exists>r. replace_tokens cls f s = Inr r"
proof (induction cls f s rule: replace_tokens.induct)
  case (1 cls f)
  then show ?case by simp
next
  case (2 cls f c cs)
  show ?case
  proof (cases "token_at cls c cs")
    case True
    obtain v where v: "f (c # takeWhile cls cs @ ''}'') (takeWhile cls cs) = Inr v"
      using "2.prems" by blast
    from "2.IH"(1) [OF True v "2.prems"]
    obtain t where "replace_tokens cls f (tl (dropWhile cls cs)) = Inr t" by blast
    from replace_tokens_match [OF True v this] show ?thesis by blast
  next
    case False
    from "2.IH"(2) [OF False "2.prems"]
    obtain t where "replace_tokens cls f cs = Inr t" by blast
    from replace_tokens_copy [OF False this] show ?thesis by blast
  qed
qed

lemma word_braces: "\<not> is_word CHR ''{''" "\<not> is_word CHR ''}''"
  by (simp_all add: is_word_def is_alpha_def is_digit_def upper_chars_def lower_chars_def
      digit_chars_def)

lemma digit_braces: "\<not> is_digit CHR ''{''" "\<not> is_digit CHR ''}''"
  by (simp_all add: is_digit_def digit_chars_def)

lemma named_replacer_empty: "named_replacer [] m n = Inr m"
  by (simp add: named_replacer_def map_has_def obj_entries_def)

lemma no_digit_token:
  assumes "list_all is_word name" "\<not> list_all is_digit name"
  shows "\<not> token_at is_digit CHR ''{'' (name @ CHR ''}'' # post)"
proof -
  from assms(2) have ex: "\<exists>x \<in> set name. \<not> is_digit x"
    by (simp add: list_all_iff)
  then have ne: "dropWhile is_digit name \<noteq> []" by simp
  then have "hd (dropWhile is_digit name) \<in> set name"
    by (metis hd_in_set set_dropWhileD)
  with assms(1) have "is_word (hd (dropWhile is_digit name))"
    by (simp add: list_all_iff)
  then have "hd (dropWhile is_digit name) \<noteq> CHR ''}''"
    using word_braces(2) by auto
  moreover have "dropWhile is_digit (name @ CHR ''}'' # post)
      = dropWhile is_digit name @ CHR ''}'' # post"
  proof -
    from ex obtain x where "x \<in> set name" "\<not> is_digit x" by blast
    then show ?thesis by (rule dropWhile_append1)
  qed
  ultimately show ?thesis using ne by (simp add: token_at_def)
qed

lemma index_pass_keeps_word_token:
  assumes w: "list_all is_word name" and nd: "\<not> list_all is_digit name"
    and pre: "replace_tokens is_digit f pre = Inr a"
    and post: "replace_tokens is_digit f post = Inr b"
  shows "replace_tokens is_digit f (pre @ CHR ''{'' # name @ ''}'' @ post)
           = Inr (a @ CHR ''{'' # name @ ''}'' @ b)"
proof -
  from w have "CHR ''{'' \<notin> set (name @ ''}'')"
    using word_braces(1) by (auto simp: list_all_iff)
  from replace_tokens_plain [OF this post]
  have "replace_tokens is_digit f (name @ CHR ''}'' # post) = Inr (name @ CHR ''}'' # b)"
    by simp
  from replace_tokens_copy [OF no_digit_token [OF w nd] this]
  have "replace_tokens is_digit f (CHR ''{'' # name @ CHR ''}'' # post)
      = Inr (CHR ''{'' # name @ CHR ''}'' # b)" .
  from replace_tokens_split [OF digit_braces(1) pre this] show ?thesis by simp
qed

lemma index_pass_total: "\<exists>r. replace_tokens is_digit (index_replacer params) s = Inr r"
  by (rule replace_tokens_total) (simp add: index_replacer_def)


text \<open>
  Claim C4 fails as stated. For the positional list \<open>[Bob, who is {user}]\<close> the
  template \<open>See {1}\<close> becomes \<open>See who is Bob\<close>: the value put in for \<open>{1}\<close> holds
  the token \<open>{user}\<close>, and the pass over the aliases replaces it.
\<close>

theorem rescanned_value_counterexample:
  "interpolate ''See {1}'' (PArray [''Bob'', ''who is {user}'']) = Inr ''See who is Bob'' \<and>
   interpolate ''See {1}'' (PArray [''Bob'', ''who is {user}'']) \<noteq> Inr ''See who is {user}''"
proof -
  have "interpolate ''See {1}'' (PArray [''Bob'', ''who is {user}'']) = Inr ''See who is Bob''"
    by code_simp
  then show ?thesis by simp
qed

text \<open>
  Claim C4 as amended. One pass never looks again at a value it has put in: in the
  named mode, and in the alias pass of the positional mode, a token between \<open>pre\<close> and
  \<open>post\<close> yields the results for \<open>pre\<close> and \<open>post\<close> with the value between them, whatever
  the value holds. The positional mode runs the pass over the numeric tokens first and the
  alias pass over its result, so the value put in for a numeric token goes through the
  alias pass together with the rest.
\<close>

theorem substitution_single_pass:
  assumes ne: "name \<noteq> []" and w: "list_all is_word name"
  shows
    "(interpolateNamedParams pre ps = Inr a \<and>
      named_replacer ps (CHR ''{'' # name @ ''}'') name = Inr v \<and>
      interpolateNamedParams post ps = Inr b
        \<longrightarrow> interpolateNamedParams (pre @ CHR ''{'' # name @ ''}'' @ post) ps = Inr (a @ v @ b)) \<and>
     (params \<noteq> [] \<and> \<not> list_all is_digit name \<and>
      interpolateArrayParams pre params = Inr a' \<and>
      alias_replacer params (CHR ''{'' # name @ ''}'') name = Inr v' \<and>
      interpolateArrayParams post params = Inr b'
        \<longrightarrow> interpolateArrayParams (pre @ CHR ''{'' # name @ ''}'' @ post) params
              = Inr (a' @ v' @ b')) \<and>
     (params \<noteq> [] \<and> idx \<noteq> [] \<and> list_all is_digit idx \<and>
      replace_tokens is_digit (index_replacer params) pre = Inr a2 \<and>
      replace_tokens is_digit (index_replacer params) post = Inr b2
        \<longrightarrow> interpolateArrayParams (pre @ CHR ''{'' # idx @ ''}'' @ post) params
              = replace_tokens is_word (alias_replacer params)
                  (a2 @ param_or params (nat_of_digits idx) (CHR ''{'' # idx @ ''}'') @ b2))"
proof (intro conjI impI)
  assume "interpolateNamedParams pre ps = Inr a \<and>
      named_replacer ps (CHR ''{'' # name @ ''}'') name = Inr v \<and>
      interpolateNamedParams post ps = Inr b"
  then show "interpolateNamedParams (pre @ CHR ''{'' # name @ ''}'' @ post) ps = Inr (a @ v @ b)"
    unfolding interpolateNamedParams_def
    using replace_tokens_token [OF word_braces ne w] by blast
next
  assume h: "params \<noteq> [] \<and> \<not> list_all is_digit name \<and>
      interpolateArrayParams pre params = Inr a' \<and>
      alias_replacer params (CHR ''{'' # name @ ''}'') name = Inr v' \<and>
      interpolateArrayParams post params = Inr b'"
  obtain p1 where p1: "replace_tokens is_digit (index_replacer params) pre = Inr p1"
    using index_pass_total by blast
  obtain q1 where q1: "replace_tokens is_digit (index_replacer params) post = Inr q1"
    using index_pass_total by blast
  from h have pn: "params \<noteq> []"
    and ia: "interpolateArrayParams pre params = Inr a'"
    and ib: "interpolateArrayParams post params = Inr b'"
    by simp_all
  from ia pn p1 have p2: "replace_tokens is_word (alias_replacer params) p1 = Inr a'"
    by (simp add: interpolateArrayParams_def)
  from ib pn q1 have q2: "replace_tokens is_word (alias_replacer params) q1 = Inr b'"
    by (simp add: interpolateArrayParams_def)
  from h have nd: "\<not> list_all is_digit name" by simp
  from h have al: "alias_replacer params (CHR ''{'' # name @ ''}'') name = Inr v'" by simp
  have "replace_tokens is_digit (index_replacer params) (pre @ CHR ''{'' # name @ ''}'' @ post)
      = Inr (p1 @ CHR ''{'' # name @ ''}'' @ q1)"
    by (rule index_pass_keeps_word_token [OF w nd p1 q1])
  moreover have "replace_tokens is_word (alias_replacer params) (p1 @ CHR ''{'' # name @ ''}'' @ q1)
      = Inr (a' @ v' @ b')"
    by (rule replace_tokens_token [OF word_braces ne w p2 al q2])
  ultimately show "interpolateArrayParams (pre @ CHR ''{'' # name @ ''}'' @ post) params
      = Inr (a' @ v' @ b')"
    using pn by (simp add: interpolateArrayParams_def)
next
  assume h: "params \<noteq> [] \<and> idx \<noteq> [] \<and> list_all is_digit idx \<and>
      replace_tokens is_digit (index_replacer params) pre = Inr a2 \<and>
      replace_tokens is_digit (index_replacer params) post = Inr b2"
  then have pn: "params \<noteq> []" and ine: "idx \<noteq> []" by simp_all
  from h have dg: "list_all is_digit idx"
    and pa: "replace_tokens is_digit (index_replacer params) pre = Inr a2"
    and pb: "replace_tokens is_digit (index_replacer params) post = Inr b2"
    by simp_all
  have f: "index_replacer params (CHR ''{'' # idx @ ''}'') idx
      = Inr (param_or params (nat_of_digits idx) (CHR ''{'' # idx @ ''}''))"
    by (simp add: index_replacer_def)
  have "replace_tokens is_digit (index_replacer params) (pre @ CHR ''{'' # idx @ ''}'' @ post)
      = Inr (a2 @ param_or params (nat_of_digits idx) (CHR ''{'' # idx @ ''}'') @ b2)"
    by (rule replace_tokens_token [OF digit_braces ine dg pa f pb])
  with pn show "interpolateArrayParams (pre @ CHR ''{'' # idx @ ''}'' @ post) params
      = replace_tokens is_word (alias_replacer params)
          (a2 @ param_or params (nat_of_digits idx) (CHR ''{'' # idx @ ''}'') @ b2)"
    by (simp add: interpolateArrayParams_def)
qed

text \<open>
  Claim C4 as amended, on \<open>Hi {user}!\<close> and \<open>Hi {0}!\<close>: the values \<open>{name}\<close> and
  \<open>{server}\<close> put in for \<open>{user}\<close> stay as they are; the value \<open>{server}\<close> put in for
  \<open>{0}\<close> is replaced by the alias pass.
\<close>

theorem substitution_single_pass_witness:
  "interpolateNamedParams ''Hi {user}!'' [(''user'', ''{name}''), (''name'', ''Bob'')]
     = Inr ''Hi {name}!'' \<and>
   interpolateArrayParams ''Hi {user}!'' [''{server}'', ''Ankara''] = Inr ''Hi {server}!'' \<and>
   interpolateArrayParams ''Hi {0}!'' [''{server}'', ''Ankara''] = Inr ''Hi Ankara!''"
proof -
  let ?ps = "[(''user'', ''{name}''), (''name'', ''Bob'')]"
  let ?params = "[''{server}'', ''Ankara'']"
  have n1: "''user'' \<noteq> []" by simp
  have n2: "list_all is_word ''user''" by code_simp
  have h1: "interpolateNamedParams ''Hi '' ?ps = Inr ''Hi ''" by code_simp
  have h2: "named_replacer ?ps (CHR ''{'' # ''user'' @ ''}'') ''user'' = Inr ''{name}''"
    by code_simp
  have h3: "interpolateNamedParams ''!'' ?ps = Inr ''!''" by code_simp
  have k0: "?params \<noteq> []" by simp
  have k1: "\<not> list_all is_digit ''user''" by code_simp
  have k2: "interpolateArrayParams ''Hi '' ?params = Inr ''Hi ''" by code_simp
  have k3: "alias_replacer ?params (CHR ''{'' # ''user'' @ ''}'') ''user'' = Inr ''{server}''"
    by code_simp
  have k4: "interpolateArrayParams ''!'' ?params = Inr ''!''" by code_simp
  have m0: "''0'' \<noteq> []" by simp
  have m1: "list_all is_digit ''0''" by code_simp
  have m2: "replace_tokens is_digit (index_replacer ?params) ''Hi '' = Inr ''Hi ''" by code_simp
  have m3: "replace_tokens is_digit (index_replacer ?params) ''!'' = Inr ''!''" by code_simp
  have m4: "replace_tokens is_word (alias_replacer ?params)
      (''Hi '' @ param_or ?params (nat_of_digits ''0'') (CHR ''{'' # ''0'' @ ''}'') @ ''!'')
      = Inr ''Hi Ankara!''"
    by code_simp
  note t = substitution_single_pass [OF n1 n2, where pre = "''Hi ''" and post = "''!''"
      and ps = ?ps and a = "''Hi ''" and v = "''{name}''" and b = "''!''"
      and params = ?params and a' = "''Hi ''" and v' = "''{server}''" and b' = "''!''"
      and idx = "''0''" and ?a2.0 = "''Hi ''" and ?b2.0 = "''!''"]
  from t h1 h2 h3 have c1: "interpolateNamedParams (''Hi '' @ CHR ''{'' # ''user'' @ ''}'' @ ''!'') ?ps
      = Inr (''Hi '' @ ''{name}'' @ ''!'')"
    by blast
  from t k0 k1 k2 k3 k4
  have c2: "interpolateArrayParams (''Hi '' @ CHR ''{'' # ''user'' @ ''}'' @ ''!'') ?params
      = Inr (''Hi '' @ ''{server}'' @ ''!'')"
    by blast
  from t k0 m0 m1 m2 m3
  have c3: "interpolateArrayParams (''Hi '' @ CHR ''{'' # ''0'' @ ''}'' @ ''!'') ?params
      = replace_tokens is_word (alias_replacer ?params)
          (''Hi '' @ param_or ?params (nat_of_digits ''0'') (CHR ''{'' # ''0'' @ ''}'') @ ''!'')"
    by blast
  from c1 c2 c3 m4 show ?thesis by simp
qed

section \<open>Properties of the argument parser\<close>

lemma parseArguments_snoc:
  "parseArguments (args @ [arg]) = parse_step (parseArguments args) arg"
  by (simp add: parseArguments_def)

lemma split_on_first:
  "split_on sep s =
     takeWhile (\<lambda>x. x \<noteq> sep) s #
       (case dropWhile (\<lambda>x. x \<noteq> sep) s of [] \<Rightarrow> [] | _ # r \<Rightarrow> split_on sep r)"
  by (induction s) (auto split: list.splits)

lemma split_limit_two:
  assumes "sep \<in> set s"
  shows "split_limit sep 2 s =
     [takeWhile (\<lambda>x. x \<noteq> sep) s,
      takeWhile (\<lambda>x. x \<noteq> sep) (tl (dropWhile (\<lambda>x. x \<noteq> sep) s))]"
proof -
  from assms have "dropWhile (\<lambda>x. x \<noteq> sep) s \<noteq> []" by simp
  then obtain y r where d: "dropWhile (\<lambda>x. x \<noteq> sep) s = y # r"
    by (cases "dropWhile (\<lambda>x. x \<noteq> sep) s") auto
  have "split_on sep s = takeWhile (\<lambda>x. x \<noteq> sep) s # split_on sep r"
    using split_on_first [of sep s] d by simp
  also have "split_on sep r = takeWhile (\<lambda>x. x \<noteq> sep) r #
       (case dropWhile (\<lambda>x. x \<noteq> sep) r of [] \<Rightarrow> [] | _ # r' \<Rightarrow> split_on sep r')"
    by (rule split_on_first)
  finally show ?thesis using d by (simp add: split_limit_def numeral_2_eq_2)
qed

lemma colon_truncated: "p_params (parseArguments [''time:12:30'']) = [(''time'', ''12'')]"
  by code_simp
lemma colon_blank_value: "p_params (parseArguments [''note: :x'']) = [(''note'', [])]"
  by code_simp
lemma mixed_arguments: "p_params (parseArguments [''first one'', ''user:Bob'', ''second one''])
   = [(''0'', ''first one''), (''user'', ''Bob''), (''2'', ''second one'')]"
  by code_simp
lemma mixed_prefix: "parseArguments [''first one'', ''user:Bob''] = \<lparr>p_locale = None, p_params = [(''0'', ''first one''), (''user'', ''Bob'')], p_forceLocale = False\<rparr>"
  by code_simp

text \<open>
  Claim C5 fails as stated. Of \<open>time:12:30\<close> the value kept is \<open>12\<close>, not the rest
  \<open>12:30\<close> of the argument; and \<open>note: :x\<close>, whose value is blank, is not dropped but
  stored with the empty string.
\<close>

theorem colon_argument_counterexample:
  "p_params (parseArguments [''time:12:30'']) = [(''time'', ''12'')] \<and>
   p_params (parseArguments [''time:12:30'']) \<noteq> [(''time'', ''12:30'')] \<and>
   p_params (parseArguments [''note: :x'']) = [(''note'', [])] \<and>
   p_params (parseArguments [''note: :x'']) \<noteq> []"
  using colon_truncated colon_blank_value by simp

text \<open>
  Claim C5 as amended. For a non-empty argument that has a colon when trimmed, the key is
  the text before the first colon and the value the text between the first colon and the
  second, or the end when there is no second one. When both are non-empty, the parser
  assigns the trimmed value to the trimmed key in the parameter object; otherwise it
  drops the argument. Language and override flag stay as they were.
\<close>

theorem colon_argument:
  assumes "arg \<noteq> []" and "CHR '':'' \<in> set (trim arg)"
  shows "parseArguments (args @ [arg]) =
     (let paramKey = takeWhile (\<lambda>x. x \<noteq> CHR '':'') (trim arg);
          paramValue =
            takeWhile (\<lambda>x. x \<noteq> CHR '':'') (tl (dropWhile (\<lambda>x. x \<noteq> CHR '':'') (trim arg)))
      in if paramKey \<noteq> [] \<and> paramValue \<noteq> []
         then (parseArguments args)
                \<lparr>p_params := obj_set (p_params (parseArguments args)) (trim paramKey)
                               (trim paramValue)\<rparr>
         else parseArguments args)"
  using assms
  by (simp add: parseArguments_snoc parse_step_def split_limit_two Let_def)

text \<open>
  Claim C5 as amended, on the argument \<open>time : 12:30\<close> with blanks around, after
  \<open>user:Bob\<close>.
\<close>

theorem colon_argument_witness:
  "'' time : 12:30 '' \<noteq> [] \<and> CHR '':'' \<in> set (trim '' time : 12:30 '') \<and>
   parseArguments [''user:Bob'', '' time : 12:30 '']
     = \<lparr>p_locale = None, p_params = [(''user'', ''Bob''), (''time'', ''12'')],
        p_forceLocale = False\<rparr>"
proof -
  have h1: "'' time : 12:30 '' \<noteq> []" by simp
  have h2: "CHR '':'' \<in> set (trim '' time : 12:30 '')" by code_simp
  have tr: "trim '' time : 12:30 '' = ''time : 12:30''" by code_simp
  have pa: "parseArguments [''user:Bob'']
      = \<lparr>p_locale = None, p_params = [(''user'', ''Bob'')], p_forceLocale = False\<rparr>"
    by code_simp
  have t1: "trim ''time '' = ''time''" by code_simp
  have t2: "trim '' 12'' = ''12''" by code_simp
  from colon_argument [OF h1 h2, of "[''user:Bob'']"] h1 h2
  show ?thesis
    by (simp add: tr pa t1 t2 obj_set_def map_set_def map_has_def)
qed

text \<open>
  Claim C6 fails as stated. After one positional and one named argument, the second
  positional argument gets the index 2; nothing is stored under 1.
\<close>

theorem positional_argument_index_counterexample:
  "p_params (parseArguments [''first one'', ''user:Bob'', ''second one''])
     = [(''0'', ''first one''), (''user'', ''Bob''), (''2'', ''second one'')] \<and>
   map_of (p_params (parseArguments [''first one'', ''user:Bob'', ''second one''])) ''1'' = None"
  using mixed_arguments by simp

text \<open>
  Claim C6 as amended. A positional argument is stored, trimmed, under the number of all
  entries the parameter object has at that moment, the named ones and the earlier
  positional ones alike.
\<close>

theorem positional_argument_index:
  assumes "is_positional arg"
  shows "parseArguments (args @ [arg]) =
     (parseArguments args)
       \<lparr>p_params :=
          obj_set (p_params (parseArguments args))
            (string_of_nat (length (obj_keys (p_params (parseArguments args))))) (trim arg)\<rparr>"
  using assms
  by (simp add: parseArguments_snoc parse_step_def is_positional_def Let_def)

text \<open>
  Claim C6 as amended, on the third of the arguments \<open>first one\<close>, \<open>user:Bob\<close>,
  \<open>second one\<close>.
\<close>

theorem positional_argument_index_witness:
  "is_positional ''second one'' \<and>
   parseArguments [''first one'', ''user:Bob'', ''second one'']
     = \<lparr>p_locale = None,
        p_params = [(''0'', ''first one''), (''user'', ''Bob''), (''2'', ''second one'')],
        p_forceLocale = False\<rparr>"
proof -
  have h: "is_positional ''second one''" by code_simp
  have tr: "trim ''second one'' = ''second one''" by code_simp
  have s2: "string_of_nat (Suc (Suc 0)) = ''2''" by code_simp
  from positional_argument_index [OF h, of "[''first one'', ''user:Bob'']"] h
  show ?thesis
    by (simp add: mixed_prefix tr s2 obj_keys_def obj_set_def map_set_def map_has_def)
qed

section \<open>Properties of the facade\<close>







section \<open>Properties of the function \<open>$locale\<close>\<close>

lemma found_text_direct:
  "getFromLocale locales key l = Some t \<Longrightarrow> t \<noteq> [] \<Longrightarrow> found_text locales key (Some l) = Some t"
  by (simp add: found_text_def falsy_def)

lemma found_text_fallback:
  "falsy (getFromLocale locales key l) \<Longrightarrow> getFirstAvailableLocale locales = Some f \<Longrightarrow>
   f \<noteq> [] \<Longrightarrow> f \<noteq> l \<Longrightarrow> found_text locales key (Some l) = getFromLocale locales key f"
  by (simp add: found_text_def)

lemma locale_function_found:
  assumes "trim key \<noteq> []"
    and "(if p_forceLocale (parseArguments rest) then Inr (p_locale (parseArguments rest))
          else detectUserLanguage cfg env d locales) = Inr loc"
    and "found_text locales (trim key)
           (if falsy loc then getFirstAvailableLocale locales else loc) = Some t"
    and "t \<noteq> []"
  shows "locale_function cfg env locales d (key # rest) =
     (case interpolateNamedParams t (p_params (parseArguments rest)) of
        Inl e \<Rightarrow> FnThrown e
      | Inr x \<Rightarrow> FnResult x)"
proof -
  from assms(1) have "key \<noteq> []" using trim_Nil by auto
  with assms show ?thesis
    by (simp add: locale_function_def Let_def getText_def split: if_splits)
qed

text \<open>
  Claim C2. What \<open>parseArguments\<close> returns as parameters is one object: an argument
  with a colon sets the property of its key, a positional argument sets the property
  whose name is the number of properties so far. \<open>interpolate\<close> hands that object to
  \<open>interpolateNamedParams\<close>. When the catalog of the resolved language, or else that of
  the first language of the store, has a text for the key, \<open>$locale\<close> ends with what
  \<open>interpolateNamedParams\<close> makes of that text and that object; the positional branch
  takes no part.
\<close>

theorem locale_function_named_branch:
  "interpolate t (PObject (p_params (parseArguments args)))
     = interpolateNamedParams t (p_params (parseArguments args)) \<and>
   (arg \<noteq> [] \<and> CHR '':'' \<in> set (trim arg) \<and>
    paramKey = takeWhile (\<lambda>x. x \<noteq> CHR '':'') (trim arg) \<and>
    paramValue = takeWhile (\<lambda>x. x \<noteq> CHR '':'') (tl (dropWhile (\<lambda>x. x \<noteq> CHR '':'') (trim arg))) \<and>
    paramKey \<noteq> [] \<and> paramValue \<noteq> []
      \<longrightarrow> p_params (parseArguments (args @ [arg]))
            = obj_set (p_params (parseArguments args)) (trim paramKey) (trim paramValue)) \<and>
   (is_positional arg'
      \<longrightarrow> p_params (parseArguments (args' @ [arg']))
            = obj_set (p_params (parseArguments args'))
                (string_of_nat (length (obj_keys (p_params (parseArguments args'))))) (trim arg')) \<and>
   (trim key \<noteq> [] \<and>
    (if p_forceLocale (parseArguments rest) then Inr (p_locale (parseArguments rest))
     else detectUserLanguage cfg env d locales) = Inr loc \<and>
    (if falsy loc then getFirstAvailableLocale locales else loc) = Some l \<and>
    getFromLocale locales (trim key) l = Some msg \<and> msg \<noteq> []
      \<longrightarrow> locale_function cfg env locales d (key # rest) =
            (case interpolateNamedParams msg (p_params (parseArguments rest)) of
               Inl e \<Rightarrow> FnThrown e
             | Inr x \<Rightarrow> FnResult x)) \<and>
   (trim key' \<noteq> [] \<and>
    (if p_forceLocale (parseArguments rest') then Inr (p_locale (parseArguments rest'))
     else detectUserLanguage cfg env d locales) = Inr loc' \<and>
    (if falsy loc' then getFirstAvailableLocale locales else loc') = Some l' \<and>
    falsy (getFromLocale locales (trim key') l') \<and>
    getFirstAvailableLocale locales = Some f \<and> f \<noteq> [] \<and> f \<noteq> l' \<and>
    getFromLocale locales (trim key') f = Some msg' \<and> msg' \<noteq> []
      \<longrightarrow> locale_function cfg env locales d (key' # rest') =
            (case interpolateNamedParams msg' (p_params (parseArguments rest')) of
               Inl e \<Rightarrow> FnThrown e
             | Inr x \<Rightarrow> FnResult x))"
proof (intro conjI impI)
  show "interpolate t (PObject (p_params (parseArguments args)))
     = interpolateNamedParams t (p_params (parseArguments args))"
    by simp
next
  assume "arg \<noteq> [] \<and> CHR '':'' \<in> set (trim arg) \<and>
    paramKey = takeWhile (\<lambda>x. x \<noteq> CHR '':'') (trim arg) \<and>
    paramValue = takeWhile (\<lambda>x. x \<noteq> CHR '':'') (tl (dropWhile (\<lambda>x. x \<noteq> CHR '':'') (trim arg))) \<and>
    paramKey \<noteq> [] \<and> paramValue \<noteq> []"
  then show "p_params (parseArguments (args @ [arg]))
      = obj_set (p_params (parseArguments args)) (trim paramKey) (trim paramValue)"
    by (auto simp add: parseArguments_snoc parse_step_def split_limit_two Let_def)
next
  assume "is_positional arg'"
  then show "p_params (parseArguments (args' @ [arg']))
      = obj_set (p_params (parseArguments args'))
          (string_of_nat (length (obj_keys (p_params (parseArguments args'))))) (trim arg')"
    by (simp add: parseArguments_snoc parse_step_def is_positional_def Let_def)
next
  assume h: "trim key \<noteq> [] \<and>
    (if p_forceLocale (parseArguments rest) then Inr (p_locale (parseArguments rest))
     else detectUserLanguage cfg env d locales) = Inr loc \<and>
    (if falsy loc then getFirstAvailableLocale locales else loc) = Some l \<and>
    getFromLocale locales (trim key) l = Some msg \<and> msg \<noteq> []"
  then have k: "trim key \<noteq> []"
    and r: "(if p_forceLocale (parseArguments rest) then Inr (p_locale (parseArguments rest))
        else detectUserLanguage cfg env d locales) = Inr loc"
    and s: "(if falsy loc then getFirstAvailableLocale locales else loc) = Some l"
    and g: "getFromLocale locales (trim key) l = Some msg"
    and n: "msg \<noteq> []"
    by simp_all
  have "found_text locales (trim key) (Some l) = Some msg"
    by (rule found_text_direct [OF g n])
  with s have "found_text locales (trim key)
      (if falsy loc then getFirstAvailableLocale locales else loc) = Some msg"
    by simp
  then show "locale_function cfg env locales d (key # rest) =
      (case interpolateNamedParams msg (p_params (parseArguments rest)) of
         Inl e \<Rightarrow> FnThrown e
       | Inr x \<Rightarrow> FnResult x)"
    by (rule locale_function_found [OF k r _ n])
next
  assume h: "trim key' \<noteq> [] \<and>
    (if p_forceLocale (parseArguments rest') then Inr (p_locale (parseArguments rest'))
     else detectUserLanguage cfg env d locales) = Inr loc' \<and>
    (if falsy loc' then getFirstAvailableLocale locales else loc') = Some l' \<and>
    falsy (getFromLocale locales (trim key') l') \<and>
    getFirstAvailableLocale locales = Some f \<and> f \<noteq> [] \<and> f \<noteq> l' \<and>
    getFromLocale locales (trim key') f = Some msg' \<and> msg' \<noteq> []"
  then have k: "trim key' \<noteq> []"
    and r: "(if p_forceLocale (parseArguments rest') then Inr (p_locale (parseArguments rest'))
        else detectUserLanguage cfg env d locales) = Inr loc'"
    and s: "(if falsy loc' then getFirstAvailableLocale locales else loc') = Some l'"
    and m: "falsy (getFromLocale locales (trim key') l')"
    and fa: "getFirstAvailableLocale locales = Some f" and fn: "f \<noteq> []" and fl: "f \<noteq> l'"
    and g: "getFromLocale locales (trim key') f = Some msg'"
    and n: "msg' \<noteq> []"
    by simp_all
  have "found_text locales (trim key') (Some l') = getFromLocale locales (trim key') f"
    by (rule found_text_fallback [OF m fa fn fl])
  with s g have "found_text locales (trim key')
      (if falsy loc' then getFirstAvailableLocale locales else loc') = Some msg'"
    by simp
  then show "locale_function cfg env locales d (key' # rest') =
      (case interpolateNamedParams msg' (p_params (parseArguments rest')) of
         Inl e \<Rightarrow> FnThrown e
       | Inr x \<Rightarrow> FnResult x)"
    by (rule locale_function_found [OF k r _ n])
qed

text \<open>
  Claim C2, on the arguments \<open>Alice B\<close> and \<open>user:Bob\<close> with the language \<open>tr\<close>
  forced: \<open>hello\<close> is found in the Turkish catalog, \<open>bye\<close> only in the English one,
  where the token \<open>{0}\<close> is filled by the named branch from the property \<open>0\<close>.
\<close>

theorem locale_function_named_branch_witness:
  "p_params (parseArguments [''Alice B'']) = [(''0'', ''Alice B'')] \<and>
   p_params (parseArguments [''Alice B'', ''user:Bob''])
     = [(''0'', ''Alice B''), (''user'', ''Bob'')] \<and>
   getFromLocale demo_store_partial ''hello'' ''tr'' = Some ''Merhaba {user}!'' \<and>
   locale_function demo_config demo_env demo_store_partial demo_data
     [''hello'', ''user:Bob'', ''tr''] = FnResult ''Merhaba Bob!'' \<and>
   getFromLocale demo_store_partial ''bye'' ''tr'' = None \<and>
   getFromLocale demo_store_partial ''bye'' ''en'' = Some ''Bye {user}, see {0}'' \<and>
   locale_function demo_config demo_env demo_store_partial demo_data
     [''bye'', ''Alice B'', ''user:Bob'', ''tr''] = FnResult ''Bye Bob, see Alice B''"
proof -
  let ?r1 = "[''user:Bob'', ''tr'']"
  let ?r2 = "[''Alice B'', ''user:Bob'', ''tr'']"
  have a1: "''user:Bob'' \<noteq> [] \<and> CHR '':'' \<in> set (trim ''user:Bob'') \<and>
      ''user'' = takeWhile (\<lambda>x. x \<noteq> CHR '':'') (trim ''user:Bob'') \<and>
      ''Bob'' = takeWhile (\<lambda>x. x \<noteq> CHR '':'')
         (tl (dropWhile (\<lambda>x. x \<noteq> CHR '':'') (trim ''user:Bob''))) \<and>
      ''user'' \<noteq> [] \<and> ''Bob'' \<noteq> []"
    by code_simp
  have a2: "is_positional ''Alice B''" by code_simp
  have p0: "p_params (parseArguments []) = []" by code_simp
  have e1: "obj_set [] (string_of_nat (length (obj_keys ([] :: obj)))) (trim ''Alice B'')
      = [(''0'', ''Alice B'')]"
    by code_simp
  have e2: "obj_set [(''0'', ''Alice B'')] (trim ''user'') (trim ''Bob'')
      = [(''0'', ''Alice B''), (''user'', ''Bob'')]"
    by code_simp
  have k1: "trim ''hello'' \<noteq> []" by code_simp
  have t1: "trim ''hello'' = ''hello''" by code_simp
  have r1: "(if p_forceLocale (parseArguments ?r1) then Inr (p_locale (parseArguments ?r1))
      else detectUserLanguage demo_config demo_env demo_data demo_store_partial)
      = Inr (Some ''tr'')"
    by code_simp
  have s1: "(if falsy (Some ''tr'') then getFirstAvailableLocale demo_store_partial
      else Some ''tr'') = Some ''tr''"
    by code_simp
  have g1: "getFromLocale demo_store_partial ''hello'' ''tr'' = Some ''Merhaba {user}!''"
    by code_simp
  have i1: "interpolateNamedParams ''Merhaba {user}!'' (p_params (parseArguments ?r1))
      = Inr ''Merhaba Bob!''"
    by code_simp
  have k2: "trim ''bye'' \<noteq> []" by code_simp
  have t2: "trim ''bye'' = ''bye''" by code_simp
  have r2: "(if p_forceLocale (parseArguments ?r2) then Inr (p_locale (parseArguments ?r2))
      else detectUserLanguage demo_config demo_env demo_data demo_store_partial)
      = Inr (Some ''tr'')"
    by code_simp
  have m2: "getFromLocale demo_store_partial ''bye'' ''tr'' = None" by code_simp
  have f2: "getFirstAvailableLocale demo_store_partial = Some ''en''" by code_simp
  have g2: "getFromLocale demo_store_partial ''bye'' ''en'' = Some ''Bye {user}, see {0}''"
    by code_simp
  have i2: "interpolateNamedParams ''Bye {user}, see {0}'' (p_params (parseArguments ?r2))
      = Inr ''Bye Bob, see Alice B''"
    by code_simp
  note t = locale_function_named_branch [where t = "''x''" and args = "[''Alice B'']"
      and arg = "''user:Bob''" and paramKey = "''user''" and paramValue = "''Bob''"
      and arg' = "''Alice B''" and args' = "[]"
      and key = "''hello''" and rest = ?r1 and cfg = demo_config and env = demo_env
      and d = demo_data and locales = demo_store_partial and loc = "Some ''tr''"
      and l = "''tr''" and msg = "''Merhaba {user}!''"
      and key' = "''bye''" and rest' = ?r2 and loc' = "Some ''tr''" and l' = "''tr''"
      and f = "''en''" and msg' = "''Bye {user}, see {0}''"]
  from t a2 have c0: "p_params (parseArguments ([] @ [''Alice B'']))
      = obj_set (p_params (parseArguments []))
          (string_of_nat (length (obj_keys (p_params (parseArguments []))))) (trim ''Alice B'')"
    by blast
  with p0 e1 have c0': "p_params (parseArguments [''Alice B'']) = [(''0'', ''Alice B'')]"
    by simp
  from t a1 have c1: "p_params (parseArguments ([''Alice B''] @ [''user:Bob'']))
      = obj_set (p_params (parseArguments [''Alice B''])) (trim ''user'') (trim ''Bob'')"
    by blast
  with c0' e2 have c1': "p_params (parseArguments [''Alice B'', ''user:Bob''])
      = [(''0'', ''Alice B''), (''user'', ''Bob'')]"
    by simp
  from g1 t1 have g1': "getFromLocale demo_store_partial (trim ''hello'') ''tr''
      = Some ''Merhaba {user}!''"
    by simp
  have n1: "''Merhaba {user}!'' \<noteq> []" by simp
  from t k1 r1 s1 g1' n1
  have c2: "locale_function demo_config demo_env demo_store_partial demo_data (''hello'' # ?r1) =
      (case interpolateNamedParams ''Merhaba {user}!'' (p_params (parseArguments ?r1)) of
         Inl e \<Rightarrow> FnThrown e
       | Inr x \<Rightarrow> FnResult x)"
    by blast
  from m2 t2 have m2': "falsy (getFromLocale demo_store_partial (trim ''bye'') ''tr'')"
    by (simp add: falsy_def)
  from g2 t2 have g2': "getFromLocale demo_store_partial (trim ''bye'') ''en''
      = Some ''Bye {user}, see {0}''"
    by simp
  have n2: "''en'' \<noteq> []" "''en'' \<noteq> ''tr''" "''Bye {user}, see {0}'' \<noteq> []" by simp_all
  from t k2 r2 s1 m2' f2 n2 g2'
  have c3: "locale_function demo_config demo_env demo_store_partial demo_data (''bye'' # ?r2) =
      (case interpolateNamedParams ''Bye {user}, see {0}'' (p_params (parseArguments ?r2)) of
         Inl e \<Rightarrow> FnThrown e
       | Inr x \<Rightarrow> FnResult x)"
    by blast
  from c0' c1' g1 c2 i1 m2 g2 c3 i2 show ?thesis by simp
qed

section \<open>Tokens without a value\<close>










lemma digits_are_word: "list_all is_digit name \<Longrightarrow> list_all is_word name"
  by (simp add: list_all_iff is_word_def)






section \<open>Properties of the language detector\<close>













text \<open>
  A hook that throws \<open>null\<close>: the handler of \<open>detectUserLanguage\<close> reads the message
  of what it caught, and the \<open>TypeError\<close> of that leaves the function.
\<close>

lemma null_hook_detect:
  "detectUserLanguage (demo_config\<lparr>customLanguageFunction := Some (\<lambda>d. Inl NullThrown)\<rparr>)
     demo_env demo_data demo_store = Inl TypeError"
  by code_simp





end
